theory Spec2Isabelle
  imports Main "HOL-Library.Word"
begin

section \<open>Fixed-arity wrappers around the Redis module API\<close>

text \<open>
  The C file \<^verbatim>\<open>redis_mod_callable.c\<close> wraps the variadic primitives of
  \<^verbatim>\<open>redismodule.h\<close> (\<^verbatim>\<open>RedisModule_Call\<close>, \<^verbatim>\<open>RedisModule_HashGet\<close>,
  \<^verbatim>\<open>RedisModule_HashSet\<close>) into functions of fixed arity. The primitives and the
  constants of the header belong to Redis, not to this code, so they are parameters of the
  model: a record gives the constants and what each primitive answers. Everything the
  wrappers do is a call of a primitive, so the state that is passed along is the list of
  calls made so far.
\<close>

subsection \<open>Values\<close>

text \<open>A C pointer to an opaque object of the module API: the null pointer or an address.\<close>

datatype ptr = NULL | Addr nat

type_synonym c_int = "32 word"
type_synonym long_long = "64 word"

text \<open>
  A local variable of pointer type. \<^verbatim>\<open>RedisModuleString *oldval;\<close> is declared without
  an initialiser, so its value is indeterminate until something is stored in it.
\<close>

datatype cell = Uninit | Init ptr

text \<open>
  One argument of a variadic call: a \<^verbatim>\<open>const char *\<close> string, a pointer value (a
  \<^verbatim>\<open>RedisModuleString *\<close>, or the literal \<^verbatim>\<open>NULL\<close> that ends a field list: both are
  the same kind of value on the C side), or the address \<^verbatim>\<open>&oldval\<close> of the local
  variable that receives the result.
\<close>

datatype vararg = VA_CStr string | VA_Ptr ptr | VA_Out

subsection \<open>Calls of the module API\<close>

datatype event =
    EvCall ptr string string "vararg list"
  | EvCallReplyType ptr
  | EvCallReplyInteger ptr
  | EvFreeCallReply ptr
  | EvHashGet ptr c_int "vararg list"
  | EvHashSet ptr c_int "vararg list"

type_synonym trace = "event list"

text \<open>
  The header \<^verbatim>\<open>redismodule.h\<close> and the server behind it. The three constants are the
  macros the wrappers use. Each answer may depend on all the calls made before it (the
  server has state), which is why every function takes the trace. \<open>api_HashGet\<close> answers
  with its status code and with what it stored through the result pointer, if anything.
\<close>

record redismodule =
  REDISMODULE_OK :: c_int
  REDISMODULE_HASH_NONE :: c_int
  REDISMODULE_REPLY_INTEGER :: c_int
  api_Call :: "trace \<Rightarrow> ptr \<Rightarrow> string \<Rightarrow> string \<Rightarrow> vararg list \<Rightarrow> ptr"
  api_CallReplyType :: "trace \<Rightarrow> ptr \<Rightarrow> c_int"
  api_CallReplyInteger :: "trace \<Rightarrow> ptr \<Rightarrow> long_long"
  api_HashGet :: "trace \<Rightarrow> ptr \<Rightarrow> c_int \<Rightarrow> vararg list \<Rightarrow> c_int \<times> ptr option"
  api_HashSet :: "trace \<Rightarrow> ptr \<Rightarrow> c_int \<Rightarrow> vararg list \<Rightarrow> c_int"

text \<open>The primitives: each one answers from the record and is added to the trace.\<close>

definition RedisModule_Call ::
  "redismodule \<Rightarrow> ptr \<Rightarrow> string \<Rightarrow> string \<Rightarrow> vararg list \<Rightarrow> trace \<Rightarrow> ptr \<times> trace" where
  "RedisModule_Call rm ctx cmdname fmt args tr =
     (api_Call rm tr ctx cmdname fmt args, tr @ [EvCall ctx cmdname fmt args])"

definition RedisModule_CallReplyType :: "redismodule \<Rightarrow> ptr \<Rightarrow> trace \<Rightarrow> c_int \<times> trace" where
  "RedisModule_CallReplyType rm reply tr =
     (api_CallReplyType rm tr reply, tr @ [EvCallReplyType reply])"

definition RedisModule_CallReplyInteger ::
  "redismodule \<Rightarrow> ptr \<Rightarrow> trace \<Rightarrow> long_long \<times> trace" where
  "RedisModule_CallReplyInteger rm reply tr =
     (api_CallReplyInteger rm tr reply, tr @ [EvCallReplyInteger reply])"

definition RedisModule_FreeCallReply :: "redismodule \<Rightarrow> ptr \<Rightarrow> trace \<Rightarrow> trace" where
  "RedisModule_FreeCallReply rm reply tr = tr @ [EvFreeCallReply reply]"

text \<open>
  \<open>RedisModule_HashGet\<close> is given the local variable whose address is among the
  arguments and returns it as the primitive left it.
\<close>

definition RedisModule_HashGet ::
  "redismodule \<Rightarrow> ptr \<Rightarrow> c_int \<Rightarrow> vararg list \<Rightarrow> cell \<Rightarrow> trace \<Rightarrow> (c_int \<times> cell) \<times> trace" where
  "RedisModule_HashGet rm key flags args out tr =
     (case api_HashGet rm tr key flags args of
        (status, written) \<Rightarrow>
          ((status, (case written of None \<Rightarrow> out | Some p \<Rightarrow> Init p)),
           tr @ [EvHashGet key flags args]))"

definition RedisModule_HashSet ::
  "redismodule \<Rightarrow> ptr \<Rightarrow> c_int \<Rightarrow> vararg list \<Rightarrow> trace \<Rightarrow> c_int \<times> trace" where
  "RedisModule_HashSet rm key flags args tr =
     (api_HashSet rm tr key flags args, tr @ [EvHashSet key flags args])"

subsection \<open>The wrappers\<close>

definition RedisModule_Callable2 ::
  "redismodule \<Rightarrow> ptr \<Rightarrow> string \<Rightarrow> string \<Rightarrow> string \<Rightarrow> trace \<Rightarrow> ptr \<times> trace" where
  "RedisModule_Callable2 rm ctx cmdname key arg0 tr =
     RedisModule_Call rm ctx cmdname ''cc'' [VA_CStr key, VA_CStr arg0] tr"

definition RedisModule_Call1 ::
  "redismodule \<Rightarrow> ptr \<Rightarrow> string \<Rightarrow> string \<Rightarrow> trace \<Rightarrow> ptr \<times> trace" where
  "RedisModule_Call1 rm ctx cmdname key tr =
     RedisModule_Call rm ctx cmdname ''c'' [VA_CStr key] tr"

definition RedisModule_Call2 ::
  "redismodule \<Rightarrow> ptr \<Rightarrow> string \<Rightarrow> string \<Rightarrow> string \<Rightarrow> trace \<Rightarrow> ptr \<times> trace" where
  "RedisModule_Call2 rm ctx cmdname key arg0 tr =
     RedisModule_Call rm ctx cmdname ''cc'' [VA_CStr key, VA_CStr arg0] tr"

definition RedisModule_Call3 ::
  "redismodule \<Rightarrow> ptr \<Rightarrow> string \<Rightarrow> string \<Rightarrow> string \<Rightarrow> string \<Rightarrow> trace \<Rightarrow> ptr \<times> trace" where
  "RedisModule_Call3 rm ctx cmdname key arg0 arg1 tr =
     RedisModule_Call rm ctx cmdname ''ccc'' [VA_CStr key, VA_CStr arg0, VA_CStr arg1] tr"

definition RedisModule_CallKeys :: "redismodule \<Rightarrow> ptr \<Rightarrow> string \<Rightarrow> trace \<Rightarrow> ptr \<times> trace" where
  "RedisModule_CallKeys rm ctx arg0 tr =
     RedisModule_Call rm ctx ''keys'' ''c'' [VA_CStr arg0] tr"

text \<open>
  The two assignments \<^verbatim>\<open>resp = NULL\<close> of the source store into a local variable that is
  not read again; they call nothing and are not part of the model.
\<close>

definition RedisModuleCallable2_ReplyInteger ::
  "redismodule \<Rightarrow> ptr \<Rightarrow> string \<Rightarrow> string \<Rightarrow> string \<Rightarrow> trace \<Rightarrow> long_long \<times> trace" where
  "RedisModuleCallable2_ReplyInteger rm ctx cmdname key arg0 tr =
     (case RedisModule_Callable2 rm ctx cmdname key arg0 tr of
        (resp, t1) \<Rightarrow>
          (case RedisModule_CallReplyType rm resp t1 of
             (ty, t2) \<Rightarrow>
               if ty \<noteq> REDISMODULE_REPLY_INTEGER rm then
                 (- 1, RedisModule_FreeCallReply rm resp t2)
               else
                 (case RedisModule_CallReplyInteger rm resp t2 of
                    (reply_int, t3) \<Rightarrow> (reply_int, RedisModule_FreeCallReply rm resp t3))))"

text \<open>
  The result is the local variable itself: \<open>Uninit\<close> says that the C function returns
  a variable nothing was stored in.
\<close>

definition RedisModuleHash_Get :: "redismodule \<Rightarrow> ptr \<Rightarrow> ptr \<Rightarrow> trace \<Rightarrow> cell \<times> trace" where
  "RedisModuleHash_Get rm key field tr =
     (case RedisModule_HashGet rm key (REDISMODULE_HASH_NONE rm)
             [VA_Ptr field, VA_Out, VA_Ptr NULL] Uninit tr of
        ((status, oldval), t1) \<Rightarrow> (oldval, t1))"

definition RedisModuleHash_Set ::
  "redismodule \<Rightarrow> ptr \<Rightarrow> ptr \<Rightarrow> ptr \<Rightarrow> trace \<Rightarrow> c_int \<times> trace" where
  "RedisModuleHash_Set rm key field val tr =
     (case RedisModule_HashSet rm key (REDISMODULE_HASH_NONE rm)
             [VA_Ptr field, VA_Ptr val, VA_Ptr NULL] tr of
        (status, t1) \<Rightarrow> (REDISMODULE_OK rm, t1))"

subsection \<open>Reading a trace\<close>

text \<open>The reply handles that were released, in order.\<close>

fun freed :: "trace \<Rightarrow> ptr list" where
  "freed [] = []"
| "freed (EvFreeCallReply p # es) = p # freed es"
| "freed (e # es) = freed es"

text \<open>The reply handles given to a primitive that reads or releases a reply.\<close>

fun reply_handles :: "trace \<Rightarrow> ptr list" where
  "reply_handles [] = []"
| "reply_handles (EvCallReplyType p # es) = p # reply_handles es"
| "reply_handles (EvCallReplyInteger p # es) = p # reply_handles es"
| "reply_handles (EvFreeCallReply p # es) = p # reply_handles es"
| "reply_handles (e # es) = reply_handles es"

text \<open>The strings each command invocation in a trace carries after the command name.\<close>

fun string_args :: "vararg list \<Rightarrow> string list" where
  "string_args [] = []"
| "string_args (VA_CStr s # as) = s # string_args as"
| "string_args (a # as) = string_args as"

fun call_args :: "trace \<Rightarrow> string list list" where
  "call_args [] = []"
| "call_args (EvCall ctx cmdname fmt args # es) = string_args args # call_args es"
| "call_args (e # es) = call_args es"

text \<open>The calls a wrapper added to the trace it started from.\<close>

definition added :: "trace \<Rightarrow> trace \<Rightarrow> trace" where
  "added tr tr' = drop (length tr) tr'"

subsection \<open>Example servers\<close>

text \<open>
  Redis numbers the macros \<^verbatim>\<open>REDISMODULE_OK\<close> 0, \<^verbatim>\<open>REDISMODULE_HASH_NONE\<close> 0,
  \<^verbatim>\<open>REDISMODULE_REPLY_STRING\<close> 0 and \<^verbatim>\<open>REDISMODULE_REPLY_INTEGER\<close> 2. The example
  server answers every command with the reply at address 7, of type \<open>ty\<close> and with
  integer payload \<open>n\<close>; a hash read stores the string at address 9 and reports
  \<open>st\<close>, a hash write reports \<open>st\<close>.
\<close>

definition example_server :: "c_int \<Rightarrow> long_long \<Rightarrow> c_int \<Rightarrow> redismodule" where
  "example_server ty n st =
     \<lparr> REDISMODULE_OK = 0, REDISMODULE_HASH_NONE = 0, REDISMODULE_REPLY_INTEGER = 2,
       api_Call = (\<lambda>tr ctx cmdname fmt args. Addr 7),
       api_CallReplyType = (\<lambda>tr reply. ty),
       api_CallReplyInteger = (\<lambda>tr reply. n),
       api_HashGet = (\<lambda>tr key flags args. (st, Some (Addr 9))),
       api_HashSet = (\<lambda>tr key flags args. st) \<rparr>"

text \<open>A server whose command invocation fails and yields the null pointer.\<close>

definition null_server :: redismodule where
  "null_server = (example_server 0 0 0) \<lparr> api_Call := (\<lambda>tr ctx cmdname fmt args. NULL) \<rparr>"

text \<open>
  A server whose hash read fails, as Redis does on a key that holds no hash: it reports 1
  (\<^verbatim>\<open>REDISMODULE_ERR\<close>) and stores nothing through the result pointer.
\<close>

definition failing_hash_server :: redismodule where
  "failing_hash_server =
     (example_server 0 0 1) \<lparr> api_HashGet := (\<lambda>tr key flags args. (1, None)) \<rparr>"

section \<open>Properties\<close>

text \<open>
  C1. When the reply of the forwarded command is not of integer type,
  \<open>RedisModuleCallable2_ReplyInteger\<close> asks for the type, releases the reply and returns
  the sentinel -1; it calls nothing else.
\<close>

theorem ReplyInteger_non_integer:
  assumes "RedisModule_Callable2 rm ctx cmdname key arg0 tr = (resp, t1)"
    and "fst (RedisModule_CallReplyType rm resp t1) \<noteq> REDISMODULE_REPLY_INTEGER rm"
  shows "RedisModuleCallable2_ReplyInteger rm ctx cmdname key arg0 tr =
           (- 1, t1 @ [EvCallReplyType resp, EvFreeCallReply resp])
         \<and> sint (fst (RedisModuleCallable2_ReplyInteger rm ctx cmdname key arg0 tr)) = - 1"
  using assms
  by (simp add: RedisModuleCallable2_ReplyInteger_def RedisModule_CallReplyType_def
      RedisModule_FreeCallReply_def)

theorem ReplyInteger_non_integer_witness:
  "RedisModule_Callable2 (example_server 0 5 0) (Addr 1) ''incr'' ''k'' ''a'' []
     = (Addr 7, [EvCall (Addr 1) ''incr'' ''cc'' [VA_CStr ''k'', VA_CStr ''a'']])
   \<and> fst (RedisModule_CallReplyType (example_server 0 5 0) (Addr 7)
            [EvCall (Addr 1) ''incr'' ''cc'' [VA_CStr ''k'', VA_CStr ''a'']])
       \<noteq> REDISMODULE_REPLY_INTEGER (example_server 0 5 0)
   \<and> RedisModuleCallable2_ReplyInteger (example_server 0 5 0) (Addr 1) ''incr'' ''k'' ''a'' []
       = (- 1, [EvCall (Addr 1) ''incr'' ''cc'' [VA_CStr ''k'', VA_CStr ''a''],
                EvCallReplyType (Addr 7), EvFreeCallReply (Addr 7)])"
proof -
  have call: "RedisModule_Callable2 (example_server 0 5 0) (Addr 1) ''incr'' ''k'' ''a'' []
     = (Addr 7, [EvCall (Addr 1) ''incr'' ''cc'' [VA_CStr ''k'', VA_CStr ''a'']])"
    by (simp add: RedisModule_Callable2_def RedisModule_Call_def example_server_def)
  have ty: "fst (RedisModule_CallReplyType (example_server 0 5 0) (Addr 7)
            [EvCall (Addr 1) ''incr'' ''cc'' [VA_CStr ''k'', VA_CStr ''a'']])
       \<noteq> REDISMODULE_REPLY_INTEGER (example_server 0 5 0)"
    by (simp add: RedisModule_CallReplyType_def example_server_def)
  show ?thesis
    using call ty ReplyInteger_non_integer [OF call ty] by simp
qed

text \<open>
  C2. When the reply is of integer type the wrapper returns the payload that
  \<open>RedisModule_CallReplyInteger\<close> reads from it, and on both paths the calls it makes
  release exactly one handle, the reply, once.
\<close>

theorem ReplyInteger_integer_and_release:
  assumes "RedisModule_Callable2 rm ctx cmdname key arg0 tr = (resp, t1)"
  shows "(fst (RedisModule_CallReplyType rm resp t1) = REDISMODULE_REPLY_INTEGER rm \<longrightarrow>
            RedisModuleCallable2_ReplyInteger rm ctx cmdname key arg0 tr =
              (fst (RedisModule_CallReplyInteger rm resp
                      (snd (RedisModule_CallReplyType rm resp t1))),
               t1 @ [EvCallReplyType resp, EvCallReplyInteger resp, EvFreeCallReply resp]))
         \<and> freed (added tr (snd (RedisModuleCallable2_ReplyInteger rm ctx cmdname key arg0 tr)))
             = [resp]"
proof -
  from assms have t1: "t1 = tr @ [EvCall ctx cmdname ''cc'' [VA_CStr key, VA_CStr arg0]]"
    by (simp add: RedisModule_Callable2_def RedisModule_Call_def)
  show ?thesis
    using assms unfolding t1
    by (simp add: RedisModuleCallable2_ReplyInteger_def RedisModule_CallReplyType_def
        RedisModule_CallReplyInteger_def RedisModule_FreeCallReply_def added_def)
qed

theorem ReplyInteger_integer_and_release_witness:
  "RedisModuleCallable2_ReplyInteger (example_server 2 42 0) (Addr 1) ''incr'' ''k'' ''a'' []
     = (42, [EvCall (Addr 1) ''incr'' ''cc'' [VA_CStr ''k'', VA_CStr ''a''],
             EvCallReplyType (Addr 7), EvCallReplyInteger (Addr 7), EvFreeCallReply (Addr 7)])
   \<and> freed (added [] (snd (RedisModuleCallable2_ReplyInteger (example_server 2 42 0)
                              (Addr 1) ''incr'' ''k'' ''a'' []))) = [Addr 7]
   \<and> freed (added [] (snd (RedisModuleCallable2_ReplyInteger (example_server 0 42 0)
                              (Addr 1) ''incr'' ''k'' ''a'' []))) = [Addr 7]"
proof -
  have call: "RedisModule_Callable2 (example_server ty 42 0) (Addr 1) ''incr'' ''k'' ''a'' []
     = (Addr 7, [EvCall (Addr 1) ''incr'' ''cc'' [VA_CStr ''k'', VA_CStr ''a'']])" for ty
    by (simp add: RedisModule_Callable2_def RedisModule_Call_def example_server_def)
  have ty: "fst (RedisModule_CallReplyType (example_server 2 42 0) (Addr 7)
            [EvCall (Addr 1) ''incr'' ''cc'' [VA_CStr ''k'', VA_CStr ''a'']])
       = REDISMODULE_REPLY_INTEGER (example_server 2 42 0)"
    by (simp add: RedisModule_CallReplyType_def example_server_def)
  have payload: "fst (RedisModule_CallReplyInteger (example_server 2 42 0) (Addr 7) t) = 42" for t
    by (simp add: RedisModule_CallReplyInteger_def example_server_def)
  show ?thesis
    using ReplyInteger_integer_and_release [OF call [of 2]]
      ReplyInteger_integer_and_release [OF call [of 0]] ty payload
    by (simp add: added_def)
qed

text \<open>
  C3. Each forwarding function makes one call of \<open>RedisModule_Call\<close>, with a format
  made of one \<open>c\<close> for each string it forwards and with the strings in the order in
  which it received them.
\<close>

theorem forwarders_format_and_order:
  "added tr (snd (RedisModule_Call1 rm ctx cmdname key tr))
     = [EvCall ctx cmdname (replicate (length [key]) (CHR ''c'')) (map VA_CStr [key])]
   \<and> added tr (snd (RedisModule_Call2 rm ctx cmdname key arg0 tr))
     = [EvCall ctx cmdname (replicate (length [key, arg0]) (CHR ''c''))
          (map VA_CStr [key, arg0])]
   \<and> added tr (snd (RedisModule_Call3 rm ctx cmdname key arg0 arg1 tr))
     = [EvCall ctx cmdname (replicate (length [key, arg0, arg1]) (CHR ''c''))
          (map VA_CStr [key, arg0, arg1])]
   \<and> added tr (snd (RedisModule_CallKeys rm ctx arg0 tr))
     = [EvCall ctx ''keys'' (replicate (length [arg0]) (CHR ''c'')) (map VA_CStr [arg0])]
   \<and> added tr (snd (RedisModule_Callable2 rm ctx cmdname key arg0 tr))
     = [EvCall ctx cmdname (replicate (length [key, arg0]) (CHR ''c''))
          (map VA_CStr [key, arg0])]"
  by (simp add: RedisModule_Call1_def RedisModule_Call2_def RedisModule_Call3_def
      RedisModule_CallKeys_def RedisModule_Callable2_def RedisModule_Call_def added_def)

text \<open>
  C4, as the claim states it: every wrapper but the integer one returns what the primitive
  produced. It fails for \<open>RedisModuleHash_Set\<close>: when \<open>RedisModule_HashSet\<close>
  returns 1, the wrapper still returns \<open>REDISMODULE_OK\<close>, which is 0. It fails
  for \<open>RedisModuleHash_Get\<close> too, when \<open>RedisModule_HashGet\<close> reports an error and
  stores nothing: the wrapper then returns its local variable without a value, which is
  nothing the primitive produced.
\<close>

theorem hash_wrappers_result_counterexample:
  "fst (RedisModuleHash_Set (example_server 0 0 1) (Addr 1) (Addr 2) (Addr 3) [])
     \<noteq> fst (RedisModule_HashSet (example_server 0 0 1) (Addr 1)
              (REDISMODULE_HASH_NONE (example_server 0 0 1))
              [VA_Ptr (Addr 2), VA_Ptr (Addr 3), VA_Ptr NULL] [])
   \<and> api_HashGet failing_hash_server [] (Addr 1) (REDISMODULE_HASH_NONE failing_hash_server)
        [VA_Ptr (Addr 2), VA_Out, VA_Ptr NULL] = (1, None)
   \<and> fst (RedisModuleHash_Get failing_hash_server (Addr 1) (Addr 2) []) = Uninit"
  by (simp add: RedisModuleHash_Set_def RedisModule_HashSet_def RedisModuleHash_Get_def
      RedisModule_HashGet_def example_server_def failing_hash_server_def)

text \<open>
  C4, amended. \<open>RedisModule_Call1\<close>, \<open>RedisModule_Call2\<close>, \<open>RedisModule_Call3\<close> and
  \<open>RedisModule_CallKeys\<close> return the reply handle the call primitive answered with, as
  it is. \<open>RedisModuleHash_Get\<close> returns the pointer \<open>RedisModule_HashGet\<close> stored
  through the result address, whenever it stored one and whatever status it reported;
  nothing is said of a call that stored nothing. \<open>RedisModuleHash_Set\<close> returns
  \<open>REDISMODULE_OK\<close>, whatever \<open>RedisModule_HashSet\<close> is and returns.
\<close>

theorem wrappers_results:
  "fst (RedisModule_Call1 rm ctx cmdname key tr)
     = api_Call rm tr ctx cmdname ''c'' [VA_CStr key]
   \<and> fst (RedisModule_Call2 rm ctx cmdname key arg_a tr)
     = api_Call rm tr ctx cmdname ''cc'' [VA_CStr key, VA_CStr arg_a]
   \<and> fst (RedisModule_Call3 rm ctx cmdname key arg_a arg_b tr)
     = api_Call rm tr ctx cmdname ''ccc'' [VA_CStr key, VA_CStr arg_a, VA_CStr arg_b]
   \<and> fst (RedisModule_CallKeys rm ctx arg_a tr)
     = api_Call rm tr ctx ''keys'' ''c'' [VA_CStr arg_a]
   \<and> (api_HashGet rm tr hkey (REDISMODULE_HASH_NONE rm) [VA_Ptr field, VA_Out, VA_Ptr NULL]
         = (status, Some p) \<longrightarrow>
       fst (RedisModuleHash_Get rm hkey field tr) = Init p)
   \<and> fst (RedisModuleHash_Set (rm \<lparr> api_HashSet := hash_set \<rparr>) hkey field val tr)
       = REDISMODULE_OK rm"
  by (simp add: RedisModule_Call1_def RedisModule_Call2_def RedisModule_Call3_def
      RedisModule_CallKeys_def RedisModule_Call_def RedisModuleHash_Get_def
      RedisModule_HashGet_def RedisModuleHash_Set_def split: prod.splits)

theorem wrappers_results_witness:
  "api_HashGet (example_server 0 0 1) [] (Addr 1) (REDISMODULE_HASH_NONE (example_server 0 0 1))
      [VA_Ptr (Addr 2), VA_Out, VA_Ptr NULL] = (1, Some (Addr 9))
   \<and> fst (RedisModuleHash_Get (example_server 0 0 1) (Addr 1) (Addr 2) []) = Init (Addr 9)
   \<and> fst (RedisModule_Call3 (example_server 0 0 1) (Addr 1) ''set'' ''k'' ''v'' ''nx'' [])
       = Addr 7
   \<and> fst (RedisModuleHash_Set (example_server 0 0 1) (Addr 1) (Addr 2) (Addr 3) []) = 0"
proof -
  have stored: "api_HashGet (example_server 0 0 1) [] (Addr 1)
      (REDISMODULE_HASH_NONE (example_server 0 0 1)) [VA_Ptr (Addr 2), VA_Out, VA_Ptr NULL]
      = (1, Some (Addr 9))"
    by (simp add: example_server_def)
  have same: "(example_server 0 0 1) \<lparr> api_HashSet := (\<lambda>tr key flags args. 1) \<rparr>
      = example_server 0 0 1"
    by (simp add: example_server_def)
  show ?thesis
    using stored same
      wrappers_results [where rm = "example_server 0 0 1" and ctx = "Addr 1"
        and cmdname = "''set''" and key = "''k''" and arg_a = "''v''" and arg_b = "''nx''"
        and tr = "[]" and hkey = "Addr 1" and field = "Addr 2" and val = "Addr 3"
        and status = 1 and p = "Addr 9" and hash_set = "\<lambda>tr key flags args. 1"]
    by (simp add: example_server_def)
qed

text \<open>
  C5. \<open>RedisModuleHash_Get\<close> and \<open>RedisModuleHash_Set\<close> make one call of their
  primitive, on the key they were given, with the flag \<open>REDISMODULE_HASH_NONE\<close> and with a
  field list of one pair (the field and the result address, or the field and the value)
  followed at once by the closing \<open>NULL\<close>.
\<close>

theorem hash_accessors_forward:
  "added tr (snd (RedisModuleHash_Get rm key field tr))
     = [EvHashGet key (REDISMODULE_HASH_NONE rm) [VA_Ptr field, VA_Out, VA_Ptr NULL]]
   \<and> added tr (snd (RedisModuleHash_Set rm key field val tr))
     = [EvHashSet key (REDISMODULE_HASH_NONE rm) [VA_Ptr field, VA_Ptr val, VA_Ptr NULL]]"
  by (simp add: RedisModuleHash_Get_def RedisModuleHash_Set_def RedisModule_HashGet_def
      RedisModule_HashSet_def added_def split: prod.splits)

text \<open>
  C6. \<open>RedisModule_CallKeys\<close> invokes the command \<open>keys\<close>, whatever its arguments,
  with the format \<open>c\<close> and its one string, and returns the reply of that call.
\<close>

theorem CallKeys_fixed_command:
  "RedisModule_CallKeys rm ctx arg0 tr
     = (api_Call rm tr ctx ''keys'' ''c'' [VA_CStr arg0],
        tr @ [EvCall ctx ''keys'' ''c'' [VA_CStr arg0]])"
  by (simp add: RedisModule_CallKeys_def RedisModule_Call_def)

text \<open>
  C7, as the claim states it: after the context and the command name, a forwarding
  function takes from 0 to 2 strings. \<open>RedisModule_Call3\<close> takes and forwards three.
\<close>

theorem Call3_three_strings_counterexample:
  "\<not> length (hd (call_args (snd (RedisModule_Call3 (example_server 0 0 0) (Addr 1)
                                   ''set'' ''k'' ''v'' ''nx'' [])))) \<le> 2"
  by (simp add: RedisModule_Call3_def RedisModule_Call_def)

text \<open>
  C7, amended. After the context (and the command name, which \<open>RedisModule_CallKeys\<close>
  does not take), the forwarding functions take one, two, three, one and two strings: a
  number from 1 to 3, a key and up to two more. All of them reach the call primitive.
\<close>

theorem forwarders_string_arity:
  "call_args (added tr (snd (RedisModule_Call1 rm ctx cmdname key tr))) = [[key]]
   \<and> call_args (added tr (snd (RedisModule_Call2 rm ctx cmdname key arg0 tr))) = [[key, arg0]]
   \<and> call_args (added tr (snd (RedisModule_Call3 rm ctx cmdname key arg0 arg1 tr)))
       = [[key, arg0, arg1]]
   \<and> call_args (added tr (snd (RedisModule_CallKeys rm ctx arg0 tr))) = [[arg0]]
   \<and> call_args (added tr (snd (RedisModule_Callable2 rm ctx cmdname key arg0 tr)))
       = [[key, arg0]]"
  by (simp add: RedisModule_Call1_def RedisModule_Call2_def RedisModule_Call3_def
      RedisModule_CallKeys_def RedisModule_Callable2_def RedisModule_Call_def added_def)

text \<open>
  C8. An integer reply with payload -1 makes \<open>RedisModuleCallable2_ReplyInteger\<close> return
  -1, which is also what it returns for any reply that is not an integer: the result does
  not tell the two apart.
\<close>

theorem sentinel_ambiguous:
  assumes "RedisModule_Callable2 rm ctx cmdname key arg0 tr = (resp, t1)"
    and "fst (RedisModule_CallReplyType rm resp t1) = REDISMODULE_REPLY_INTEGER rm"
    and "fst (RedisModule_CallReplyInteger rm resp
                (snd (RedisModule_CallReplyType rm resp t1))) = - 1"
    and "RedisModule_Callable2 rm' ctx' cmdname' key' arg0' tr' = (resp', t1')"
    and "fst (RedisModule_CallReplyType rm' resp' t1') \<noteq> REDISMODULE_REPLY_INTEGER rm'"
  shows "fst (RedisModuleCallable2_ReplyInteger rm ctx cmdname key arg0 tr) = - 1
         \<and> fst (RedisModuleCallable2_ReplyInteger rm ctx cmdname key arg0 tr)
             = fst (RedisModuleCallable2_ReplyInteger rm' ctx' cmdname' key' arg0' tr')"
  using assms
  by (simp add: RedisModuleCallable2_ReplyInteger_def RedisModule_CallReplyType_def
      RedisModule_CallReplyInteger_def)

theorem sentinel_ambiguous_witness:
  "fst (RedisModuleCallable2_ReplyInteger (example_server 2 (- 1) 0) (Addr 1)
          ''decr'' ''k'' ''a'' []) = - 1
   \<and> fst (RedisModuleCallable2_ReplyInteger (example_server 2 (- 1) 0) (Addr 1)
            ''decr'' ''k'' ''a'' [])
       = fst (RedisModuleCallable2_ReplyInteger (example_server 0 (- 1) 0) (Addr 1)
                ''get'' ''k'' ''a'' [])"
proof -
  have call: "RedisModule_Callable2 (example_server ty (- 1) 0) (Addr 1) c ''k'' ''a'' []
     = (Addr 7, [EvCall (Addr 1) c ''cc'' [VA_CStr ''k'', VA_CStr ''a'']])" for ty c
    by (simp add: RedisModule_Callable2_def RedisModule_Call_def example_server_def)
  have ty: "fst (RedisModule_CallReplyType (example_server 2 (- 1) 0) (Addr 7) t)
       = REDISMODULE_REPLY_INTEGER (example_server 2 (- 1) 0)" for t
    by (simp add: RedisModule_CallReplyType_def example_server_def)
  have payload:
    "fst (RedisModule_CallReplyInteger (example_server 2 (- 1) 0) (Addr 7) t) = - 1" for t
    by (simp add: RedisModule_CallReplyInteger_def example_server_def)
  have ty': "fst (RedisModule_CallReplyType (example_server 0 (- 1) 0) (Addr 7) t)
       \<noteq> REDISMODULE_REPLY_INTEGER (example_server 0 (- 1) 0)" for t
    by (simp add: RedisModule_CallReplyType_def example_server_def)
  show ?thesis
    by (rule sentinel_ambiguous [OF call ty payload call ty'])
qed

text \<open>
  C9. The handle that \<open>RedisModule_Call\<close> returns is the only one the wrapper gives to
  the primitives that read and release a reply, and it gives it unchecked. So no null
  pointer reaches them when the call returned a reply; and when the call returned the null
  pointer, it goes to \<open>RedisModule_CallReplyType\<close> first and to
  \<open>RedisModule_FreeCallReply\<close> last.
\<close>

theorem ReplyInteger_no_null_check:
  assumes "RedisModule_Callable2 rm ctx cmdname key arg0 tr = (resp, t1)"
  shows "set (reply_handles (added tr (snd (RedisModuleCallable2_ReplyInteger rm ctx cmdname key arg0 tr)))) = {resp}
    \<and> (resp \<noteq> NULL \<longrightarrow>
          NULL \<notin> set (reply_handles (added tr
                    (snd (RedisModuleCallable2_ReplyInteger rm ctx cmdname key arg0 tr)))))
    \<and> (resp = NULL \<longrightarrow>
          take 1 (added t1 (snd (RedisModuleCallable2_ReplyInteger rm ctx cmdname key arg0 tr)))
            = [EvCallReplyType NULL]
          \<and> last (snd (RedisModuleCallable2_ReplyInteger rm ctx cmdname key arg0 tr))
            = EvFreeCallReply NULL)"
proof -
  from assms have t1: "t1 = tr @ [EvCall ctx cmdname ''cc'' [VA_CStr key, VA_CStr arg0]]"
    by (simp add: RedisModule_Callable2_def RedisModule_Call_def)
  show ?thesis
    using assms unfolding t1
    by (simp add: RedisModuleCallable2_ReplyInteger_def RedisModule_CallReplyType_def
        RedisModule_CallReplyInteger_def RedisModule_FreeCallReply_def added_def)
qed

theorem ReplyInteger_no_null_check_witness:
  "NULL \<notin> set (reply_handles (added []
      (snd (RedisModuleCallable2_ReplyInteger (example_server 2 5 0) (Addr 1)
              ''incr'' ''k'' ''a'' []))))
   \<and> take 1 (added [EvCall (Addr 1) ''incr'' ''cc'' [VA_CStr ''k'', VA_CStr ''a'']]
        (snd (RedisModuleCallable2_ReplyInteger null_server (Addr 1) ''incr'' ''k'' ''a'' [])))
       = [EvCallReplyType NULL]
   \<and> last (snd (RedisModuleCallable2_ReplyInteger null_server (Addr 1) ''incr'' ''k'' ''a'' []))
       = EvFreeCallReply NULL"
proof -
  have call: "RedisModule_Callable2 (example_server 2 5 0) (Addr 1) ''incr'' ''k'' ''a'' []
     = (Addr 7, [EvCall (Addr 1) ''incr'' ''cc'' [VA_CStr ''k'', VA_CStr ''a'']])"
    by (simp add: RedisModule_Callable2_def RedisModule_Call_def example_server_def)
  have null: "RedisModule_Callable2 null_server (Addr 1) ''incr'' ''k'' ''a'' []
     = (NULL, [EvCall (Addr 1) ''incr'' ''cc'' [VA_CStr ''k'', VA_CStr ''a'']])"
    by (simp add: RedisModule_Callable2_def RedisModule_Call_def null_server_def)
  show ?thesis
    using ReplyInteger_no_null_check [OF call] ReplyInteger_no_null_check [OF null]
    by simp
qed

text \<open>
  C10. \<open>RedisModuleHash_Get\<close> returns the variable as \<open>RedisModule_HashGet\<close> left it:
  the pointer stored in it (a null pointer like any other), or the variable without a
  value when nothing was stored. The status code has no part in it: a server that reports
  any other status and stores the same gives the same result and the same trace.
\<close>

theorem HashGet_status_discarded:
  "RedisModuleHash_Get rm key field tr
     = ((case snd (api_HashGet rm tr key (REDISMODULE_HASH_NONE rm)
                     [VA_Ptr field, VA_Out, VA_Ptr NULL]) of
           None \<Rightarrow> Uninit | Some p \<Rightarrow> Init p),
        tr @ [EvHashGet key (REDISMODULE_HASH_NONE rm) [VA_Ptr field, VA_Out, VA_Ptr NULL]])
   \<and> RedisModuleHash_Get
       (rm \<lparr> api_HashGet := (\<lambda>t k f a. (status, snd (api_HashGet rm t k f a))) \<rparr>)
       key field tr
     = RedisModuleHash_Get rm key field tr"
  by (simp add: RedisModuleHash_Get_def RedisModule_HashGet_def split: prod.splits)

end
